theory Spec2Isabelle
  imports Complex_Main
begin

section \<open>Data model of \<open>server.go\<close>\<close>

text \<open>
  The structs of the server, as records. The carrier \<open>'f\<close> stands for Go's \<open>float64\<close>:
  the definitions use only its \<open>0\<close>, \<open>+\<close> and \<open>*\<close> and assume no law about them, so
  the pricing loop is modelled with the order of its additions intact. Theorems that
  speak of a mathematical sum state the laws they need as a sort constraint.
  Go's \<open>int\<close> is modelled as \<open>int\<close>: the code does no integer arithmetic on a quantity,
  it only converts it to \<open>float64\<close>.
\<close>

record 'f MenuItem =
  ID :: string
  Name :: string
  Price :: 'f
  Description :: string

record 'f RestaurantMenu =
  menu_RestaurantID :: string
  Menu :: "'f MenuItem list"

record OrderItem =
  MenuID :: string
  Quantity :: int

text \<open>\<open>Items\<close> is \<open>None\<close> for Go's nil slice (the field absent or null in the request body).\<close>

record 'f Order =
  OrderID :: string
  RestaurantID :: string
  Items :: "OrderItem list option"
  TotalAmount :: 'f
  Status :: string

record DeliverRequest =
  deliver_OrderID :: string
  deliver_RiderID :: string

record SendNotificationRequest =
  Recipient :: string
  notif_OrderID :: string
  Message :: string

subsection \<open>HTTP responses\<close>

text \<open>
  \<open>c.JSON(code, v)\<close>: the status code and the value that is encoded. A
  \<open>map[string]string\<close> (or \<open>map[string]interface{}\<close> holding strings) is its list of
  key-value pairs.
\<close>

datatype 'f json_body =
    Fields "(string \<times> string) list"
  | MenuBody "'f RestaurantMenu"

record 'f response =
  code :: nat
  body :: "'f json_body"

definition JSON :: "nat \<Rightarrow> 'f json_body \<Rightarrow> 'f response" where
  "JSON c v = \<lparr>code = c, body = v\<rparr>"

definition StatusOK :: nat where "StatusOK = 200"
definition StatusBadRequest :: nat where "StatusBadRequest = 400"
definition StatusInternalServerError :: nat where "StatusInternalServerError = 500"

subsection \<open>The library functions the server calls\<close>

text \<open>
  The conversion \<open>float64(n)\<close>, the verb \<open>%.2f\<close> of \<open>fmt.Sprintf\<close>, \<open>json.Marshal\<close> and
  \<open>json.Unmarshal\<close> at type \<open>RestaurantMenu\<close> (\<open>Inl\<close> carries the error text), and the
  step of the pseudo-random source behind \<open>rand.Intn\<close> (a raw value and the next state)
  are parameters of the model.
\<close>

record 'f runtime =
  float64_of_int :: "int \<Rightarrow> 'f"
  sprintf_2f :: "'f \<Rightarrow> string"
  json_Marshal :: "'f RestaurantMenu \<Rightarrow> string + string"
  json_Unmarshal :: "string \<Rightarrow> string + 'f RestaurantMenu"
  rand_source :: "nat \<Rightarrow> nat \<times> nat"

text \<open>The verb \<open>%d\<close> of \<open>fmt.Sprintf\<close>: the decimal digits, with a sign when negative.\<close>

definition digit_char :: "nat \<Rightarrow> char" where
  "digit_char d = ''0123456789'' ! d"

fun decimal :: "nat \<Rightarrow> string" where
  "decimal n = (if n < 10 then [digit_char n] else decimal (n div 10) @ [digit_char (n mod 10)])"

declare decimal.simps [simp del]

definition sprintf_d :: "int \<Rightarrow> string" where
  "sprintf_d i = (if i < 0 then CHR ''-'' # decimal (nat (- i)) else decimal (nat i))"

subsection \<open>The world outside the process\<close>

text \<open>
  Every call that leaves the process is recorded, in program order, in a trace. A call
  of \<open>fmt.Print*\<close> or \<open>log.Print*\<close> is recorded as \<open>LogOutput\<close>, without its text.
\<close>

datatype effect =
    RedisGet string
  | RedisSet string string nat
  | ReadFile string
  | KafkaWrite string string
  | KafkaRead string
  | KafkaCommit string nat
  | LogOutput

text \<open>
  The Redis store maps a key to its value and time-to-live in seconds; expiry is not
  modelled. \<open>redis_get_fault\<close> is the error, other than \<open>redis.Nil\<close>, that a \<open>Get\<close> meets;
  \<open>redis_set_fault\<close> says that a \<open>Set\<close> is lost (the server ignores the result of \<open>Set\<close>).
  \<open>files\<close> is what \<open>os.ReadFile\<close> returns for a path (\<open>Inl\<close> the error text).
  \<open>topics\<close> is the broker's log of each topic, \<open>writer_fault\<close> the error a
  \<open>WriteMessages\<close> to a topic meets. The consumer group's reader has the offset of the
  next message it fetches, the committed offset, the error a \<open>ReadMessage\<close> meets and
  whether a \<open>CommitMessages\<close> is lost (the server ignores its result).
\<close>

record world =
  redis_data :: "string \<Rightarrow> (string \<times> nat) option"
  redis_get_fault :: "string option"
  redis_set_fault :: bool
  files :: "string \<Rightarrow> string + string"
  topics :: "string \<Rightarrow> string list"
  writer_fault :: "string \<Rightarrow> string option"
  reader_next :: nat
  reader_committed :: nat
  reader_fault :: "string option"
  commit_fault :: bool
  rand_state :: nat
  trace :: "effect list"

definition emit :: "effect \<Rightarrow> world \<Rightarrow> world" where
  "emit e w = w\<lparr>trace := trace w @ [e]\<rparr>"

datatype redis_result = RedisNil | RedisErr string | RedisVal string

definition redis_Get :: "string \<Rightarrow> world \<Rightarrow> redis_result \<times> world" where
  "redis_Get key w =
     (case redis_get_fault w of
        Some e \<Rightarrow> (RedisErr e, emit (RedisGet key) w)
      | None \<Rightarrow>
          (case redis_data w key of
             None \<Rightarrow> (RedisNil, emit (RedisGet key) w)
           | Some (v, ttl) \<Rightarrow> (RedisVal v, emit (RedisGet key) w)))"

definition redis_Set :: "string \<Rightarrow> string \<Rightarrow> nat \<Rightarrow> world \<Rightarrow> world" where
  "redis_Set key v ttl w =
     emit (RedisSet key v ttl)
       (if redis_set_fault w then w else w\<lparr>redis_data := (redis_data w)(key \<mapsto> (v, ttl))\<rparr>)"

definition time_Hour :: nat where "time_Hour = 3600"

definition os_ReadFile :: "string \<Rightarrow> world \<Rightarrow> (string + string) \<times> world" where
  "os_ReadFile path w = (files w path, emit (ReadFile path) w)"

text \<open>\<open>WriteMessages\<close> of one message: the error, if any, and the world after the call.\<close>

definition WriteMessages :: "string \<Rightarrow> string \<Rightarrow> world \<Rightarrow> string option \<times> world" where
  "WriteMessages topic v w =
     (case writer_fault w topic of
        Some e \<Rightarrow> (Some e, emit (KafkaWrite topic v) w)
      | None \<Rightarrow>
          (None, emit (KafkaWrite topic v) (w\<lparr>topics := (topics w)(topic := topics w topic @ [v])\<rparr>)))"

text \<open>\<open>rand.Intn(n)\<close>: a pseudo-random number in \<open>[0, n)\<close>, as the library documents it.\<close>

definition rand_Intn :: "'f runtime \<Rightarrow> nat \<Rightarrow> world \<Rightarrow> nat \<times> world" where
  "rand_Intn rt n w =
     (case rand_source rt (rand_state w) of (raw, s) \<Rightarrow> (raw mod n, w\<lparr>rand_state := s\<rparr>))"

definition kafkaWriter_Topic :: string where "kafkaWriter_Topic = ''orders''"
definition kafkaNotiWriter_Topic :: string where "kafkaNotiWriter_Topic = ''order-delivered''"

section \<open>The catalog cache\<close>

definition fetchMenuFromFile :: "'f runtime \<Rightarrow> string \<Rightarrow> world \<Rightarrow> (string + 'f RestaurantMenu) \<times> world" where
  "fetchMenuFromFile rt restaurantID w =
     (case os_ReadFile ''menu.json'' w of
        (Inl err, w1) \<Rightarrow> (Inl (''failed to read menu file: '' @ err), w1)
      | (Inr file, w1) \<Rightarrow>
          (case json_Unmarshal rt file of
             Inl err \<Rightarrow> (Inl (''failed to parse menu JSON: '' @ err), w1)
           | Inr menuData \<Rightarrow>
               if menu_RestaurantID menuData \<noteq> restaurantID
               then (Inl (''menu for restaurant '' @ restaurantID @ '' not found''), w1)
               else
                 let menuJSON = (case json_Marshal rt menuData of Inl _ \<Rightarrow> [] | Inr s \<Rightarrow> s)
                 in (Inr menuData, redis_Set restaurantID menuJSON time_Hour w1)))"

definition getMenuFromCache :: "'f runtime \<Rightarrow> string \<Rightarrow> world \<Rightarrow> (string + 'f RestaurantMenu) \<times> world" where
  "getMenuFromCache rt restaurantID w =
     (case redis_Get restaurantID w of
        (RedisNil, w1) \<Rightarrow> fetchMenuFromFile rt restaurantID w1
      | (RedisErr err, w1) \<Rightarrow> (Inl (''redis error: '' @ err), w1)
      | (RedisVal menuData, w1) \<Rightarrow>
          (case json_Unmarshal rt menuData of
             Inl err \<Rightarrow> (Inl (''failed to parse cached menu: '' @ err), w1)
           | Inr menu \<Rightarrow> (Inr menu, w1)))"

text \<open>
  \<open>fetchMenuFromJSON\<close> reads the same file for the \<open>/menu\<close> handler; it prints as it goes
  and leaves the population of the cache to its caller.
\<close>

definition fetchMenuFromJSON :: "'f runtime \<Rightarrow> string \<Rightarrow> world \<Rightarrow> (string + 'f RestaurantMenu) \<times> world" where
  "fetchMenuFromJSON rt restaurantID w =
     (case os_ReadFile ''menu.json'' w of
        (Inl err, w1) \<Rightarrow> (Inl err, emit LogOutput w1)
      | (Inr file, w1) \<Rightarrow>
          (let w2 = emit LogOutput w1 in
           case json_Unmarshal rt file of
             Inl err \<Rightarrow> (Inl err, emit LogOutput w2)
           | Inr menuData \<Rightarrow>
               (let w3 = emit LogOutput w2 in
                if menu_RestaurantID menuData \<noteq> restaurantID
                then (Inl (''menu for restaurant '' @ restaurantID @ '' not found''), emit LogOutput w3)
                else (Inr \<lparr>menu_RestaurantID = menu_RestaurantID menuData, Menu = Menu menuData\<rparr>, w3))))"

definition getMenu :: "'f runtime \<Rightarrow> string \<Rightarrow> world \<Rightarrow> 'f response \<times> world" where
  "getMenu rt restaurantID w =
     (if restaurantID = ''''
      then (JSON StatusBadRequest (Fields [(''error'', ''restaurant_id is required'')]), w)
      else
        (case redis_Get restaurantID (emit LogOutput w) of
           (RedisNil, w1) \<Rightarrow>
             (case fetchMenuFromJSON rt restaurantID (emit LogOutput w1) of
                (Inl err, w2) \<Rightarrow>
                  (JSON StatusInternalServerError (Fields [(''error'', ''Failed to fetch menu'')]),
                   emit LogOutput w2)
              | (Inr menu, w2) \<Rightarrow>
                  (let menuJSON = (case json_Marshal rt menu of Inl _ \<Rightarrow> [] | Inr s \<Rightarrow> s)
                   in (JSON StatusOK (MenuBody menu),
                       emit LogOutput (redis_Set restaurantID menuJSON time_Hour w2))))
         | (RedisErr err, w1) \<Rightarrow>
             (JSON StatusInternalServerError (Fields [(''error'', ''Redis error'')]),
              emit LogOutput w1)
         | (RedisVal menuData, w1) \<Rightarrow>
             (let w2 = emit LogOutput w1 in
              case json_Unmarshal rt menuData of
                Inl err \<Rightarrow>
                  (JSON StatusInternalServerError (Fields [(''error'', ''Failed to parse cached menu'')]),
                   emit LogOutput w2)
              | Inr cachedMenu \<Rightarrow> (JSON StatusOK (MenuBody cachedMenu), w2))))"

section \<open>Order lifecycle\<close>

subsection \<open>Pricing\<close>

text \<open>
  The two nested \<open>range\<close> loops of \<open>placeOrder\<close>, with \<open>totalAmount\<close> as the accumulator:
  the inner loop goes through the whole menu for one requested item, the outer loop
  through the requested items.
\<close>

fun totalAmount_menu_loop :: "('f::{plus,times}) runtime \<Rightarrow> OrderItem \<Rightarrow> 'f MenuItem list \<Rightarrow> 'f \<Rightarrow> 'f" where
  "totalAmount_menu_loop rt item [] totalAmount = totalAmount"
| "totalAmount_menu_loop rt item (menuItem # rest) totalAmount =
     totalAmount_menu_loop rt item rest
       (if MenuID item = ID menuItem
        then totalAmount + Price menuItem * float64_of_int rt (Quantity item)
        else totalAmount)"

fun totalAmount_items_loop :: "('f::{plus,times}) runtime \<Rightarrow> OrderItem list \<Rightarrow> 'f MenuItem list \<Rightarrow> 'f \<Rightarrow> 'f" where
  "totalAmount_items_loop rt [] menu totalAmount = totalAmount"
| "totalAmount_items_loop rt (item # rest) menu totalAmount =
     totalAmount_items_loop rt rest menu (totalAmount_menu_loop rt item menu totalAmount)"

definition totalAmount_of :: "('f::{zero,plus,times}) runtime \<Rightarrow> OrderItem list \<Rightarrow> 'f RestaurantMenu \<Rightarrow> 'f" where
  "totalAmount_of rt items menu = totalAmount_items_loop rt items (Menu menu) 0"

subsection \<open>Create\<close>

definition publishOrderEvent :: "'f runtime \<Rightarrow> 'f Order \<Rightarrow> world \<Rightarrow> string option \<times> world" where
  "publishOrderEvent rt order w =
     (let message = ''Order Created: '' @ OrderID order @ '' | Restaurant: '' @ RestaurantID order
                    @ '' | Total: '' @ sprintf_2f rt (TotalAmount order)
      in case WriteMessages kafkaWriter_Topic message w of
           (Some err, w1) \<Rightarrow> (Some (''failed to publish order event to Kafka: '' @ err), w1)
         | (None, w1) \<Rightarrow> (None, emit LogOutput w1))"

text \<open>
  The argument is what \<open>c.Bind\<close> leaves in \<open>order\<close>: \<open>None\<close> when binding fails. Ranging
  over a nil slice runs no iteration.
\<close>

definition placeOrder :: "('f::{zero,plus,times}) runtime \<Rightarrow> 'f Order option \<Rightarrow> world \<Rightarrow> 'f response \<times> world" where
  "placeOrder rt bound w =
     (case bound of
        None \<Rightarrow> (JSON StatusBadRequest (Fields [(''error'', ''Invalid order details'')]), w)
      | Some order \<Rightarrow>
          if RestaurantID order = '''' \<or> Items order = None
          then (JSON StatusBadRequest (Fields [(''error'', ''restaurant_id and items are required'')]), w)
          else
            (case getMenuFromCache rt (RestaurantID order) w of
               (Inl err, w1) \<Rightarrow>
                 (JSON StatusInternalServerError (Fields [(''error'', ''Failed to fetch restaurant menu'')]), w1)
             | (Inr menu, w1) \<Rightarrow>
                 (let totalAmount = totalAmount_of rt (case Items order of None \<Rightarrow> [] | Some items \<Rightarrow> items) menu
                  in case rand_Intn rt 10000 w1 of
                       (n, w2) \<Rightarrow>
                         (let order1 = order\<lparr>OrderID := sprintf_d (int n)\<rparr>;
                              order2 = order1\<lparr>TotalAmount := totalAmount\<rparr>;
                              order3 = order2\<lparr>Status := ''created''\<rparr>
                          in case publishOrderEvent rt order3 (emit LogOutput w2) of
                               (Some err, w3) \<Rightarrow>
                                 (JSON StatusInternalServerError
                                    (Fields [(''error'', ''Failed to publish order event'')]), w3)
                             | (None, w3) \<Rightarrow>
                                 (JSON StatusOK
                                    (Fields [(''order_id'', OrderID order3), (''status'', Status order3)]),
                                  emit LogOutput w3)))))"

subsection \<open>ConfirmDelivery\<close>

definition publishOrderDeliveredEvent :: "string \<Rightarrow> world \<Rightarrow> string option \<times> world" where
  "publishOrderDeliveredEvent orderID w =
     (let message = ''Order '' @ orderID @ '' Delivered''
      in case WriteMessages kafkaWriter_Topic message (emit LogOutput w) of
           (Some err, w1) \<Rightarrow> (Some (''failed to publish to Kafka: '' @ err), w1)
         | (None, w1) \<Rightarrow> (None, emit LogOutput w1))"

definition confirmDelivery :: "DeliverRequest option \<Rightarrow> world \<Rightarrow> 'f response \<times> world" where
  "confirmDelivery bound w =
     (case bound of
        None \<Rightarrow> (JSON StatusBadRequest (Fields [(''error'', ''Invalid request'')]), w)
      | Some req \<Rightarrow>
          if deliver_OrderID req = '''' \<or> deliver_RiderID req = ''''
          then (JSON StatusBadRequest (Fields [(''error'', ''Missing order_id or rider_id'')]), w)
          else
            (case publishOrderDeliveredEvent (deliver_OrderID req) (emit LogOutput w) of
               (Some err, w1) \<Rightarrow> (JSON StatusInternalServerError (Fields [(''error'', err)]), w1)
             | (None, w1) \<Rightarrow> (JSON StatusOK (Fields [(''status'', ''Delivered'')]), w1)))"

subsection \<open>Notifications\<close>

definition sendNotification :: "SendNotificationRequest option \<Rightarrow> world \<Rightarrow> 'f response \<times> world" where
  "sendNotification bound w =
     (case bound of
        None \<Rightarrow> (JSON StatusBadRequest (Fields [(''error'', ''Invalid request'')]), w)
      | Some req \<Rightarrow>
          if Recipient req \<noteq> ''customer'' \<and> Recipient req \<noteq> ''restaurant'' \<and> Recipient req \<noteq> ''rider''
          then (JSON StatusBadRequest (Fields [(''error'', ''Invalid recipient'')]), w)
          else (JSON StatusOK (Fields [(''status'', ''sent'')]), emit LogOutput w))"

section \<open>The notification relay\<close>

text \<open>
  The reader of \<open>consumeOrderDeliveredEvent\<close> is on the topic \<open>orders\<close>. \<open>ReadMessage\<close>
  returns the message at the reader's offset, fails, or blocks when the log has no
  message there. \<open>CommitMessages\<close> moves the group's committed offset past the message.
\<close>

definition reader_Topic :: string where "reader_Topic = ''orders''"

datatype read_result = ReadErr string | ReadBlocks | ReadMsg nat string

definition ReadMessage :: "world \<Rightarrow> read_result \<times> world" where
  "ReadMessage w =
     (case reader_fault w of
        Some e \<Rightarrow> (ReadErr e, emit (KafkaRead reader_Topic) w)
      | None \<Rightarrow>
          if reader_next w < length (topics w reader_Topic)
          then (ReadMsg (reader_next w) (topics w reader_Topic ! reader_next w),
                emit (KafkaRead reader_Topic) (w\<lparr>reader_next := Suc (reader_next w)\<rparr>))
          else (ReadBlocks, emit (KafkaRead reader_Topic) w))"

definition CommitMessages :: "nat \<Rightarrow> world \<Rightarrow> world" where
  "CommitMessages off w =
     emit (KafkaCommit reader_Topic off)
       (if commit_fault w then w else w\<lparr>reader_committed := Suc off\<rparr>)"

definition processOrderDeliveredEvent :: "string \<Rightarrow> world \<Rightarrow> world" where
  "processOrderDeliveredEvent message w =
     emit LogOutput (snd (WriteMessages kafkaNotiWriter_Topic (''Notification: '' @ message) w))"

text \<open>
  The loop never returns: it ends only when \<open>log.Fatalf\<close> exits the process after a
  failed read. The model runs it for a given number of iterations and says how it
  stopped: the process exited, the read blocks for ever, or the iterations are used up.
\<close>

datatype relay_stop = Fatal string | Blocked | Running

fun consumeOrderDeliveredEvent :: "nat \<Rightarrow> world \<Rightarrow> relay_stop \<times> world" where
  "consumeOrderDeliveredEvent 0 w = (Running, w)"
| "consumeOrderDeliveredEvent (Suc fuel) w =
     (case ReadMessage w of
        (ReadErr err, w1) \<Rightarrow> (Fatal err, emit LogOutput w1)
      | (ReadBlocks, w1) \<Rightarrow> (Blocked, w1)
      | (ReadMsg off msg, w1) \<Rightarrow>
          consumeOrderDeliveredEvent fuel (processOrderDeliveredEvent msg (CommitMessages off w1)))"

section \<open>Notions used to state the properties\<close>

text \<open>
  The pricing rule in the words of the specification: for each requested item, find the
  menu item with the matching identifier; if found, add price times quantity.
\<close>

definition OrderPricer_Price :: "('f::{monoid_add,times}) runtime \<Rightarrow> OrderItem list \<Rightarrow> 'f RestaurantMenu \<Rightarrow> 'f" where
  "OrderPricer_Price rt items menu =
     (\<Sum>item\<leftarrow>items.
        case find (\<lambda>menuItem. ID menuItem = MenuID item) (Menu menu) of
          None \<Rightarrow> 0
        | Some menuItem \<Rightarrow> Price menuItem * float64_of_int rt (Quantity item))"

text \<open>The number that a string of decimal digits denotes.\<close>

definition digit_value :: "char \<Rightarrow> nat" where
  "digit_value c = of_char c - 48"

definition decimal_value :: "string \<Rightarrow> nat" where
  "decimal_value s = foldl (\<lambda>acc c. 10 * acc + digit_value c) 0 s"

text \<open>\<open>n\<close> calls of \<open>getMenuFromCache\<close> for one key, one after the other, and their results.\<close>

fun getMenuFromCache_repeat ::
  "'f runtime \<Rightarrow> string \<Rightarrow> nat \<Rightarrow> world \<Rightarrow> (string + 'f RestaurantMenu) list \<times> world" where
  "getMenuFromCache_repeat rt key 0 w = ([], w)"
| "getMenuFromCache_repeat rt key (Suc n) w =
     (case getMenuFromCache rt key w of
        (r, w1) \<Rightarrow> (case getMenuFromCache_repeat rt key n w1 of (rs, w2) \<Rightarrow> (r # rs, w2)))"

text \<open>
  What one iteration of the relay does to the outside, for the message at an offset of
  the given log: the read, the commit of that offset, the write of the notification, and
  the log line.
\<close>

definition relay_effects :: "string list \<Rightarrow> nat \<Rightarrow> effect list" where
  "relay_effects msgs off =
     [KafkaRead ''orders'', KafkaCommit ''orders'' off,
      KafkaWrite ''order-delivered'' (''Notification: '' @ msgs ! off), LogOutput]"

subsection \<open>A concrete runtime and world\<close>

text \<open>
  An instance of the parameters with exact arithmetic on rationals, \<open>%.2f\<close> rounding to
  the nearest hundredth (ties to even), a codec that knows one menu and its text, and a
  linear congruential random source. The world has that text in \<open>menu.json\<close>, an empty
  cache, empty topics and no fault.
\<close>

definition round_half_even :: "rat \<Rightarrow> int" where
  "round_half_even x =
     (let f = \<lfloor>x\<rfloor>; d = x - of_int f
      in if d < 1 / 2 then f else if 1 / 2 < d then f + 1 else if even f then f else f + 1)"

definition rat_2f :: "rat \<Rightarrow> string" where
  "rat_2f r =
     (let c = nat (round_half_even (\<bar>r\<bar> * 100))
      in (if r < 0 then ''-'' else '''') @ decimal (c div 100) @ ''.''
         @ [digit_char (c mod 100 div 10), digit_char (c mod 10)])"

definition demo_menu :: "rat RestaurantMenu" where
  "demo_menu =
     \<lparr>menu_RestaurantID = ''r1'',
      Menu = [\<lparr>ID = ''m1'', Name = ''Pad Thai'', Price = 10, Description = ''''\<rparr>,
              \<lparr>ID = ''m2'', Name = ''Iced Tea'', Price = 5, Description = ''''\<rparr>]\<rparr>"

definition demo_file :: string where
  "demo_file = ''{restaurant_id: r1, menu: [{id: m1, price: 10.0}, {id: m2, price: 5.0}]}''"

definition demo_runtime :: "rat runtime" where
  "demo_runtime =
     \<lparr>float64_of_int = of_int,
      sprintf_2f = rat_2f,
      json_Marshal = (\<lambda>m. if m = demo_menu then Inr demo_file else Inl ''json: unsupported value''),
      json_Unmarshal = (\<lambda>s. if s = demo_file then Inr demo_menu else Inl ''invalid character''),
      rand_source = (\<lambda>s. ((1103515245 * s + 12345) mod 2147483648, (1103515245 * s + 12345) mod 2147483648))\<rparr>"

definition demo_world :: world where
  "demo_world =
     \<lparr>redis_data = (\<lambda>key. None),
      redis_get_fault = None,
      redis_set_fault = False,
      files = (\<lambda>path. if path = ''menu.json'' then Inr demo_file else Inl ''no such file or directory''),
      topics = (\<lambda>topic. []),
      writer_fault = (\<lambda>topic. None),
      reader_next = 0,
      reader_committed = 0,
      reader_fault = None,
      commit_fault = False,
      rand_state = 42,
      trace = []\<rparr>"

definition demo_order :: "OrderItem list \<Rightarrow> rat Order" where
  "demo_order items =
     \<lparr>OrderID = '''', RestaurantID = ''r1'', Items = Some items, TotalAmount = 0, Status = ''''\<rparr>"

section \<open>Basic facts about the world\<close>

lemma emit_simps [simp]:
  "redis_data (emit e w) = redis_data w"
  "redis_get_fault (emit e w) = redis_get_fault w"
  "redis_set_fault (emit e w) = redis_set_fault w"
  "files (emit e w) = files w"
  "topics (emit e w) = topics w"
  "writer_fault (emit e w) = writer_fault w"
  "reader_next (emit e w) = reader_next w"
  "reader_committed (emit e w) = reader_committed w"
  "reader_fault (emit e w) = reader_fault w"
  "commit_fault (emit e w) = commit_fault w"
  "rand_state (emit e w) = rand_state w"
  "trace (emit e w) = trace w @ [e]"
  by (simp_all add: emit_def)

lemma Status_simps [simp]:
  "StatusOK = 200" "StatusBadRequest = 400" "StatusInternalServerError = 500"
  by (simp_all add: StatusOK_def StatusBadRequest_def StatusInternalServerError_def)

lemma topic_names [simp]:
  "kafkaWriter_Topic = ''orders''" "kafkaNotiWriter_Topic = ''order-delivered''" "reader_Topic = ''orders''"
  by (simp_all add: kafkaWriter_Topic_def kafkaNotiWriter_Topic_def reader_Topic_def)

section \<open>Validation of requests\<close>

text \<open>
  Claim C2. A Create request whose \<open>restaurant_id\<close> is empty or whose \<open>items\<close> field is
  absent is answered with status 400, and the world is left exactly as it was: no call
  to the cache, the menu file or the broker is made, and nothing is logged.
\<close>

theorem placeOrder_rejects_missing_fields:
  assumes "RestaurantID order = '''' \<or> Items order = None"
  shows "placeOrder rt (Some order) w =
           (JSON 400 (Fields [(''error'', ''restaurant_id and items are required'')]), w)"
  using assms by (simp add: placeOrder_def)

theorem placeOrder_rejects_missing_fields_witness:
  "(RestaurantID (demo_order [\<lparr>MenuID = ''m1'', Quantity = 2\<rparr>]\<lparr>RestaurantID := ''''\<rparr>) = ''''
      \<or> Items (demo_order [\<lparr>MenuID = ''m1'', Quantity = 2\<rparr>]\<lparr>RestaurantID := ''''\<rparr>) = None)
   \<and> placeOrder demo_runtime (Some (demo_order [\<lparr>MenuID = ''m1'', Quantity = 2\<rparr>]\<lparr>RestaurantID := ''''\<rparr>)) demo_world =
       (JSON 400 (Fields [(''error'', ''restaurant_id and items are required'')]), demo_world)
   \<and> (RestaurantID ((demo_order [])\<lparr>Items := None\<rparr>) = '''' \<or> Items ((demo_order [])\<lparr>Items := None\<rparr>) = None)
   \<and> placeOrder demo_runtime (Some ((demo_order [])\<lparr>Items := None\<rparr>)) demo_world =
       (JSON 400 (Fields [(''error'', ''restaurant_id and items are required'')]), demo_world)"
  using placeOrder_rejects_missing_fields [of "demo_order [\<lparr>MenuID = ''m1'', Quantity = 2\<rparr>]\<lparr>RestaurantID := ''''\<rparr>" demo_runtime demo_world]
        placeOrder_rejects_missing_fields [of "(demo_order [])\<lparr>Items := None\<rparr>" demo_runtime demo_world]
  by (simp add: demo_order_def)

text \<open>
  Claim C8. A \<open>/notification/send\<close> request whose recipient is none of \<open>customer\<close>,
  \<open>restaurant\<close> and \<open>rider\<close> is answered with status 400 and leaves the world as it
  was; a request whose recipient is one of the three is answered with
  \<open>{status: sent}\<close>.
\<close>

theorem sendNotification_recipient_check:
  "(Recipient req \<notin> {''customer'', ''restaurant'', ''rider''} \<longrightarrow>
      (sendNotification (Some req) w :: 'f response \<times> world) =
        (JSON 400 (Fields [(''error'', ''Invalid recipient'')]), w))
   \<and> (Recipient req \<in> {''customer'', ''restaurant'', ''rider''} \<longrightarrow>
      fst (sendNotification (Some req) w :: 'f response \<times> world) =
        JSON 200 (Fields [(''status'', ''sent'')]))"
  by (simp add: sendNotification_def)

theorem sendNotification_recipient_check_witness:
  "Recipient \<lparr>Recipient = ''courier'', notif_OrderID = ''o1'', Message = ''on the way''\<rparr>
      \<notin> {''customer'', ''restaurant'', ''rider''}
   \<and> (sendNotification (Some \<lparr>Recipient = ''courier'', notif_OrderID = ''o1'', Message = ''on the way''\<rparr>)
         demo_world :: rat response \<times> world) =
       (JSON 400 (Fields [(''error'', ''Invalid recipient'')]), demo_world)
   \<and> Recipient \<lparr>Recipient = ''rider'', notif_OrderID = ''o1'', Message = ''ready''\<rparr>
      \<in> {''customer'', ''restaurant'', ''rider''}
   \<and> fst (sendNotification (Some \<lparr>Recipient = ''rider'', notif_OrderID = ''o1'', Message = ''ready''\<rparr>)
         demo_world :: rat response \<times> world) =
       JSON 200 (Fields [(''status'', ''sent'')])"
  using sendNotification_recipient_check
          [of "\<lparr>Recipient = ''courier'', notif_OrderID = ''o1'', Message = ''on the way''\<rparr>" demo_world]
        sendNotification_recipient_check
          [of "\<lparr>Recipient = ''rider'', notif_OrderID = ''o1'', Message = ''ready''\<rparr>" demo_world]
  by simp

text \<open>
  Claim C6. A ConfirmDelivery request with non-empty \<open>order_id\<close> and \<open>rider_id\<close>, when
  the write to the broker succeeds, is answered with \<open>{status: Delivered}\<close>; the only
  change to the broker is one message appended to the topic \<open>orders\<close>, with the payload
  \<open>Order <order_id> Delivered\<close>, and the trace holds exactly one write. When either
  field is empty the request is answered with status 400 and the world is left as it was.
\<close>

theorem confirmDelivery_publishes_once:
  "(deliver_OrderID req \<noteq> '''' \<and> deliver_RiderID req \<noteq> '''' \<and> writer_fault w ''orders'' = None \<longrightarrow>
      (confirmDelivery (Some req) w :: 'f response \<times> world) =
        (JSON 200 (Fields [(''status'', ''Delivered'')]),
         w\<lparr>topics := (topics w)(''orders'' := topics w ''orders'' @ [''Order '' @ deliver_OrderID req @ '' Delivered'']),
           trace := trace w @ [LogOutput, LogOutput,
                               KafkaWrite ''orders'' (''Order '' @ deliver_OrderID req @ '' Delivered''),
                               LogOutput]\<rparr>))
   \<and> (deliver_OrderID req = '''' \<or> deliver_RiderID req = '''' \<longrightarrow>
      (confirmDelivery (Some req) w :: 'f response \<times> world) =
        (JSON 400 (Fields [(''error'', ''Missing order_id or rider_id'')]), w))"
  by (simp add: confirmDelivery_def publishOrderDeliveredEvent_def WriteMessages_def emit_def Let_def)

theorem confirmDelivery_publishes_once_witness:
  "(deliver_OrderID \<lparr>deliver_OrderID = ''o1'', deliver_RiderID = ''rd1''\<rparr> \<noteq> ''''
     \<and> deliver_RiderID \<lparr>deliver_OrderID = ''o1'', deliver_RiderID = ''rd1''\<rparr> \<noteq> ''''
     \<and> writer_fault demo_world ''orders'' = None)
   \<and> fst (confirmDelivery (Some \<lparr>deliver_OrderID = ''o1'', deliver_RiderID = ''rd1''\<rparr>) demo_world
            :: rat response \<times> world) = JSON 200 (Fields [(''status'', ''Delivered'')])
   \<and> topics (snd (confirmDelivery (Some \<lparr>deliver_OrderID = ''o1'', deliver_RiderID = ''rd1''\<rparr>) demo_world
            :: rat response \<times> world)) ''orders'' = [''Order o1 Delivered'']
   \<and> (deliver_OrderID \<lparr>deliver_OrderID = ''o1'', deliver_RiderID = ''''\<rparr> = ''''
        \<or> deliver_RiderID \<lparr>deliver_OrderID = ''o1'', deliver_RiderID = ''''\<rparr> = '''')
   \<and> (confirmDelivery (Some \<lparr>deliver_OrderID = ''o1'', deliver_RiderID = ''''\<rparr>) demo_world
            :: rat response \<times> world) =
       (JSON 400 (Fields [(''error'', ''Missing order_id or rider_id'')]), demo_world)"
  using confirmDelivery_publishes_once
          [of "\<lparr>deliver_OrderID = ''o1'', deliver_RiderID = ''rd1''\<rparr>" demo_world, where ?'f = rat]
        confirmDelivery_publishes_once
          [of "\<lparr>deliver_OrderID = ''o1'', deliver_RiderID = ''''\<rparr>" demo_world, where ?'f = rat]
  by (simp add: demo_world_def)

section \<open>The catalog cache\<close>

text \<open>
  Claim C4. When the read of the cache fails with an error other than \<open>redis.Nil\<close>,
  \<open>getMenuFromCache\<close> returns a Redis error and the only call made is that read: the
  menu file is not read and nothing is written to the cache. The \<open>/menu\<close> handler and
  Create answer with status 500 in that case, again without reading the file or writing
  to the cache.
\<close>

theorem redis_failure_is_not_a_miss:
  assumes "redis_get_fault w = Some e"
  shows "getMenuFromCache rt key w = (Inl (''redis error: '' @ e), emit (RedisGet key) w)
    \<and> (key \<noteq> '''' \<longrightarrow>
         getMenu rt key w =
           (JSON 500 (Fields [(''error'', ''Redis error'')]),
            emit LogOutput (emit (RedisGet key) (emit LogOutput w))))
    \<and> (RestaurantID order \<noteq> '''' \<and> Items order \<noteq> None \<longrightarrow>
         placeOrder rt (Some order) w =
           (JSON 500 (Fields [(''error'', ''Failed to fetch restaurant menu'')]),
            emit (RedisGet (RestaurantID order)) w))"
  using assms
  by (simp add: getMenuFromCache_def getMenu_def placeOrder_def redis_Get_def)

theorem redis_failure_is_not_a_miss_witness:
  "redis_get_fault (demo_world\<lparr>redis_get_fault := Some ''connection refused''\<rparr>) = Some ''connection refused''
   \<and> getMenuFromCache demo_runtime ''r1'' (demo_world\<lparr>redis_get_fault := Some ''connection refused''\<rparr>) =
       (Inl ''redis error: connection refused'',
        demo_world\<lparr>redis_get_fault := Some ''connection refused'', trace := [RedisGet ''r1'']\<rparr>)
   \<and> fst (getMenu demo_runtime ''r1'' (demo_world\<lparr>redis_get_fault := Some ''connection refused''\<rparr>)) =
       JSON 500 (Fields [(''error'', ''Redis error'')])
   \<and> fst (placeOrder demo_runtime (Some (demo_order [\<lparr>MenuID = ''m1'', Quantity = 2\<rparr>]))
            (demo_world\<lparr>redis_get_fault := Some ''connection refused''\<rparr>)) =
       JSON 500 (Fields [(''error'', ''Failed to fetch restaurant menu'')])"
  using redis_failure_is_not_a_miss
          [of "demo_world\<lparr>redis_get_fault := Some ''connection refused''\<rparr>" "''connection refused''"
              demo_runtime "''r1''" "demo_order [\<lparr>MenuID = ''m1'', Quantity = 2\<rparr>]"]
  by (simp add: demo_order_def demo_world_def emit_def)

section \<open>Pricing\<close>

text \<open>
  The loops written as left folds: the additions are those of the source, in its order,
  so these two statements need no law of arithmetic.
\<close>

lemma menu_loop_foldl:
  "totalAmount_menu_loop rt item menu acc =
     foldl (+) acc
       (map (\<lambda>menuItem. Price menuItem * float64_of_int rt (Quantity item))
            (filter (\<lambda>menuItem. ID menuItem = MenuID item) menu))"
  by (induction menu arbitrary: acc) auto

lemma items_loop_foldl:
  "totalAmount_items_loop rt items menu acc =
     foldl (+) acc
       (concat (map (\<lambda>item. map (\<lambda>menuItem. Price menuItem * float64_of_int rt (Quantity item))
                                  (filter (\<lambda>menuItem. ID menuItem = MenuID item) menu)) items))"
  by (induction items arbitrary: acc) (simp_all add: menu_loop_foldl)

lemma foldl_plus_sum_list:
  fixes acc :: "'a::monoid_add"
  shows "foldl (+) acc xs = acc + sum_list xs"
  by (induction xs arbitrary: acc) (simp_all add: add.assoc)

lemma menu_loop_sum:
  fixes acc :: "'f::{monoid_add,times}"
  shows "totalAmount_menu_loop rt item menu acc =
     acc + (\<Sum>menuItem\<leftarrow>filter (\<lambda>menuItem. ID menuItem = MenuID item) menu.
                 Price menuItem * float64_of_int rt (Quantity item))"
  by (simp add: menu_loop_foldl foldl_plus_sum_list)

lemma items_loop_sum:
  fixes acc :: "'f::{monoid_add,times}"
  shows "totalAmount_items_loop rt items menu acc =
     acc + (\<Sum>item\<leftarrow>items. \<Sum>menuItem\<leftarrow>filter (\<lambda>menuItem. ID menuItem = MenuID item) menu.
                 Price menuItem * float64_of_int rt (Quantity item))"
  by (induction items arbitrary: acc) (simp_all add: menu_loop_sum add.assoc)

lemma menu_loop_absent:
  "MenuID item \<notin> ID ` set menu \<Longrightarrow> totalAmount_menu_loop rt item menu acc = acc"
  by (induction menu arbitrary: acc) auto

lemma items_loop_drop_absent:
  "totalAmount_items_loop rt (filter (\<lambda>item. MenuID item \<in> ID ` set menu) items) menu acc =
   totalAmount_items_loop rt items menu acc"
  by (induction items arbitrary: acc) (simp_all add: menu_loop_absent)

lemma filter_distinct_find:
  "distinct (map f xs) \<Longrightarrow>
   filter (\<lambda>x. f x = k) xs = (case find (\<lambda>x. f x = k) xs of None \<Rightarrow> [] | Some x \<Rightarrow> [x])"
proof (induction xs)
  case Nil
  then show ?case by simp
next
  case (Cons x xs)
  show ?case
  proof (cases "f x = k")
    case True
    with Cons.prems have "\<forall>y\<in>set xs. f y \<noteq> k" by (auto simp: image_iff)
    then have "filter (\<lambda>x. f x = k) xs = []" by (simp add: filter_empty_conv)
    with True show ?thesis by simp
  next
    case False
    with Cons show ?thesis by simp
  qed
qed

lemma items_loop_spec:
  fixes menu :: "('f::{monoid_add,times}) RestaurantMenu"
  assumes "distinct (map ID (Menu menu))"
  shows "totalAmount_of rt items menu = OrderPricer_Price rt items menu"
proof -
  have "(\<Sum>menuItem\<leftarrow>filter (\<lambda>menuItem. ID menuItem = MenuID item) (Menu menu).
            Price menuItem * float64_of_int rt (Quantity item)) =
        (case find (\<lambda>menuItem. ID menuItem = MenuID item) (Menu menu) of
           None \<Rightarrow> 0
         | Some menuItem \<Rightarrow> Price menuItem * float64_of_int rt (Quantity item))" for item :: OrderItem
    using filter_distinct_find [OF assms, of "MenuID item"]
    by (simp split: option.splits)
  then show ?thesis
    by (simp add: totalAmount_of_def OrderPricer_Price_def items_loop_sum)
qed

lemma getMenuFromCache_frame:
  assumes "getMenuFromCache rt key w = (r, w1)"
  shows "topics w1 = topics w" "writer_fault w1 = writer_fault w" "rand_state w1 = rand_state w"
        "files w1 = files w" "redis_get_fault w1 = redis_get_fault w"
        "redis_set_fault w1 = redis_set_fault w" "reader_next w1 = reader_next w"
        "reader_committed w1 = reader_committed w" "reader_fault w1 = reader_fault w"
        "commit_fault w1 = commit_fault w"
  using assms
  by (auto simp: getMenuFromCache_def fetchMenuFromFile_def redis_Get_def redis_Set_def
                 os_ReadFile_def Let_def
           split: option.splits sum.splits if_splits prod.splits)

lemma placeOrder_accepts:
  assumes rid: "RestaurantID order \<noteq> ''''"
    and items: "Items order = Some items"
    and menu: "getMenuFromCache rt (RestaurantID order) w = (Inr menu, w1)"
    and up: "writer_fault w ''orders'' = None"
  shows "placeOrder rt (Some order) w =
     (JSON 200 (Fields [(''order_id'', sprintf_d (int (fst (rand_source rt (rand_state w)) mod 10000))),
                        (''status'', ''created'')]),
      w1\<lparr>topics := (topics w1)(''orders'' := topics w1 ''orders'' @
             [''Order Created: '' @ sprintf_d (int (fst (rand_source rt (rand_state w)) mod 10000))
              @ '' | Restaurant: '' @ RestaurantID order
              @ '' | Total: '' @ sprintf_2f rt (totalAmount_of rt items menu)]),
         rand_state := snd (rand_source rt (rand_state w)),
         trace := trace w1 @
             [LogOutput,
              KafkaWrite ''orders''
                (''Order Created: '' @ sprintf_d (int (fst (rand_source rt (rand_state w)) mod 10000))
                 @ '' | Restaurant: '' @ RestaurantID order
                 @ '' | Total: '' @ sprintf_2f rt (totalAmount_of rt items menu)),
              LogOutput, LogOutput]\<rparr>)"
proof -
  have f: "writer_fault w1 ''orders'' = None" "rand_state w1 = rand_state w"
    using getMenuFromCache_frame [OF menu] up by simp_all
  show ?thesis
    using rid items menu f
    by (simp add: placeOrder_def rand_Intn_def publishOrderEvent_def WriteMessages_def
                  Let_def emit_def split: prod.splits)
qed

section \<open>Create\<close>

lemma digit_value_digit_char: "d < 10 \<Longrightarrow> digit_value (digit_char d) = d"
proof -
  assume "d < 10"
  then have "d \<in> {0, 1, 2, 3, 4, 5, 6, 7, 8, 9}" by auto
  then show ?thesis
    by (auto simp: digit_value_def digit_char_def)
qed

lemma decimal_value_snoc: "decimal_value (s @ [c]) = 10 * decimal_value s + digit_value c"
  by (simp add: decimal_value_def)

lemma decimal_value_decimal: "decimal_value (decimal n) = n"
proof (induction n rule: decimal.induct)
  case (1 n)
  show ?case
  proof (cases "n < 10")
    case True
    then show ?thesis
      by (subst decimal.simps) (simp add: decimal_value_def digit_value_digit_char)
  next
    case False
    with 1 have "decimal_value (decimal (n div 10)) = n div 10" by simp
    with False show ?thesis
      by (subst decimal.simps) (simp add: decimal_value_snoc digit_value_digit_char)
  qed
qed

lemma demo_getMenuFromCache:
  "getMenuFromCache demo_runtime ''r1'' demo_world =
     (Inr demo_menu,
      demo_world\<lparr>redis_data := (\<lambda>key. None)(''r1'' \<mapsto> (demo_file, 3600)),
                 trace := [RedisGet ''r1'', ReadFile ''menu.json'', RedisSet ''r1'' demo_file 3600]\<rparr>)"
  by (simp add: getMenuFromCache_def fetchMenuFromFile_def redis_Get_def redis_Set_def os_ReadFile_def
                demo_runtime_def demo_world_def demo_menu_def emit_def time_Hour_def)

lemma placeOrder_ok_body:
  assumes "code (fst (placeOrder rt bound w)) = 200"
  shows "\<exists>raw. body (fst (placeOrder rt bound w)) =
            Fields [(''order_id'', sprintf_d (int (raw mod 10000))), (''status'', ''created'')]"
  using assms
  by (auto simp: placeOrder_def JSON_def rand_Intn_def publishOrderEvent_def Let_def
           split: option.splits sum.splits prod.splits if_splits)

lemma demo_order_id:
  "sprintf_d (int (fst (rand_source demo_runtime (rand_state demo_world)) mod 10000)) = ''6027''"
  by (simp add: demo_runtime_def demo_world_def sprintf_d_def decimal.simps digit_char_def)

lemma demo_placeOrder:
  "placeOrder demo_runtime (Some (demo_order items)) demo_world =
     (JSON 200 (Fields [(''order_id'', ''6027''), (''status'', ''created'')]),
      demo_world\<lparr>redis_data := (\<lambda>key. None)(''r1'' \<mapsto> (demo_file, 3600)),
                 topics := (\<lambda>topic. [])(''orders'' :=
                    [''Order Created: 6027 | Restaurant: r1 | Total: ''
                     @ rat_2f (totalAmount_of demo_runtime items demo_menu)]),
                 rand_state := 1250496027,
                 trace := [RedisGet ''r1'', ReadFile ''menu.json'', RedisSet ''r1'' demo_file 3600,
                           LogOutput,
                           KafkaWrite ''orders''
                             (''Order Created: 6027 | Restaurant: r1 | Total: ''
                              @ rat_2f (totalAmount_of demo_runtime items demo_menu)),
                           LogOutput, LogOutput]\<rparr>)"
proof -
  have a: "RestaurantID (demo_order items) \<noteq> ''''" "Items (demo_order items) = Some items"
          "RestaurantID (demo_order items) = ''r1''"
    by (simp_all add: demo_order_def)
  have b: "writer_fault demo_world ''orders'' = None" by (simp add: demo_world_def)
  have c: "sprintf_2f demo_runtime = rat_2f" "snd (rand_source demo_runtime (rand_state demo_world)) = 1250496027"
    by (simp_all add: demo_runtime_def demo_world_def)
  show ?thesis
    using placeOrder_accepts [OF a(1) a(2) _ b, of demo_runtime demo_menu] demo_getMenuFromCache
    by (simp add: a(3) demo_order_id c) (simp add: demo_world_def)
qed

text \<open>
  Claim C5. Whenever Create answers with status 200, the body of the response is exactly
  the two fields \<open>order_id\<close> and \<open>status\<close>; \<open>status\<close> is \<open>created\<close> and \<open>order_id\<close> is
  the decimal representation of a number \<open>n\<close> drawn by \<open>rand.Intn(10000)\<close>, so
  \<open>0 \<le> n < 10000\<close>, and reading the digits back gives \<open>n\<close>.
\<close>

theorem placeOrder_order_id:
  assumes "code (fst (placeOrder rt bound w)) = 200"
  shows "\<exists>n<10000. body (fst (placeOrder rt bound w)) =
                       Fields [(''order_id'', sprintf_d (int n)), (''status'', ''created'')]
                   \<and> sprintf_d (int n) = decimal n \<and> decimal_value (decimal n) = n"
proof -
  from placeOrder_ok_body [OF assms] obtain raw :: nat where
    b: "body (fst (placeOrder rt bound w)) =
          Fields [(''order_id'', sprintf_d (int (raw mod 10000))), (''status'', ''created'')]"
    by blast
  have "raw mod 10000 < 10000" by simp
  moreover have "sprintf_d (int (raw mod 10000)) = decimal (raw mod 10000)"
    by (simp add: sprintf_d_def)
  ultimately show ?thesis
    using b decimal_value_decimal by blast
qed

theorem placeOrder_order_id_witness:
  "code (fst (placeOrder demo_runtime (Some (demo_order [\<lparr>MenuID = ''m1'', Quantity = 2\<rparr>])) demo_world)) = 200
   \<and> (\<exists>n<10000. body (fst (placeOrder demo_runtime (Some (demo_order [\<lparr>MenuID = ''m1'', Quantity = 2\<rparr>])) demo_world)) =
                       Fields [(''order_id'', sprintf_d (int n)), (''status'', ''created'')]
                   \<and> sprintf_d (int n) = decimal n \<and> decimal_value (decimal n) = n)"
proof -
  have h: "code (fst (placeOrder demo_runtime (Some (demo_order [\<lparr>MenuID = ''m1'', Quantity = 2\<rparr>])) demo_world)) = 200"
    by (simp add: demo_placeOrder JSON_def)
  from placeOrder_order_id [OF h] h show ?thesis by simp
qed

text \<open>
  Claim C9. The inner loop does not stop at the first match: for one requested item it
  adds price times quantity once for every menu entry whose identifier matches, in menu
  order. In particular, with two entries of the same identifier the item is priced
  twice.
\<close>

theorem menu_loop_sums_every_match:
  "totalAmount_menu_loop rt item menu acc =
     foldl (+) acc
       (map (\<lambda>menuItem. Price menuItem * float64_of_int rt (Quantity item))
            (filter (\<lambda>menuItem. ID menuItem = MenuID item) menu))
   \<and> (ID m1 = MenuID item \<and> ID m2 = MenuID item \<longrightarrow>
        totalAmount_of rt [item] \<lparr>menu_RestaurantID = r, Menu = [m1, m2]\<rparr> =
          0 + Price m1 * float64_of_int rt (Quantity item) + Price m2 * float64_of_int rt (Quantity item))"
  by (simp add: menu_loop_foldl totalAmount_of_def)

theorem menu_loop_sums_every_match_witness:
  "(ID \<lparr>ID = ''m1'', Name = ''Pad Thai'', Price = 10::rat, Description = ''''\<rparr> = MenuID \<lparr>MenuID = ''m1'', Quantity = 1\<rparr>
    \<and> ID \<lparr>ID = ''m1'', Name = ''Pad Thai (large)'', Price = 12::rat, Description = ''''\<rparr> = MenuID \<lparr>MenuID = ''m1'', Quantity = 1\<rparr>)
   \<and> totalAmount_of demo_runtime [\<lparr>MenuID = ''m1'', Quantity = 1\<rparr>]
        \<lparr>menu_RestaurantID = ''r1'',
         Menu = [\<lparr>ID = ''m1'', Name = ''Pad Thai'', Price = 10, Description = ''''\<rparr>,
                 \<lparr>ID = ''m1'', Name = ''Pad Thai (large)'', Price = 12, Description = ''''\<rparr>]\<rparr> = 22"
  using menu_loop_sums_every_match
          [where ?m1.0 = "\<lparr>ID = ''m1'', Name = ''Pad Thai'', Price = 10::rat, Description = ''''\<rparr>"
             and item = "\<lparr>MenuID = ''m1'', Quantity = 1\<rparr>"
             and ?m2.0 = "\<lparr>ID = ''m1'', Name = ''Pad Thai (large)'', Price = 12::rat, Description = ''''\<rparr>"
             and rt = demo_runtime and menu = "[]" and acc = 0 and r = "''r1''"]
  by (simp add: demo_runtime_def)

text \<open>
  Claim C1. The total computed by Create is the sum, over the requested items, of price
  times quantity over the menu entries whose identifier is the item's \<open>menu_id\<close>. An item
  whose \<open>menu_id\<close> is not in the menu adds nothing: removing such items from the order
  leaves the total unchanged. When the identifiers of the menu are distinct, the total
  is the pricing rule of the specification (find the matching entry; if found, add
  price times quantity). The order is not rejected because of such items: with a
  non-empty \<open>restaurant_id\<close>, a non-nil item list, a menu from the cache and a working
  broker, Create answers with status 200 and appends to the topic \<open>orders\<close> one event
  whose \<open>Total\<close> is that sum. (Addition is taken to be associative with unit 0, which
  floating-point rounding is not; \<open>items_loop_foldl\<close> is the statement without that.)
\<close>

theorem placeOrder_totalAmount:
  fixes rt :: "('f::{monoid_add,times}) runtime"
  shows
  "totalAmount_of rt items menu =
     (\<Sum>item\<leftarrow>items. \<Sum>menuItem\<leftarrow>filter (\<lambda>menuItem. ID menuItem = MenuID item) (Menu menu).
        Price menuItem * float64_of_int rt (Quantity item))
   \<and> totalAmount_of rt (filter (\<lambda>item. MenuID item \<in> ID ` set (Menu menu)) items) menu =
       totalAmount_of rt items menu
   \<and> (distinct (map ID (Menu menu)) \<longrightarrow> totalAmount_of rt items menu = OrderPricer_Price rt items menu)
   \<and> (RestaurantID order \<noteq> '''' \<and> Items order = Some items
        \<and> getMenuFromCache rt (RestaurantID order) w = (Inr menu, w1)
        \<and> writer_fault w ''orders'' = None \<longrightarrow>
        code (fst (placeOrder rt (Some order) w)) = 200
        \<and> (\<exists>oid. topics (snd (placeOrder rt (Some order) w)) ''orders'' =
               topics w ''orders'' @
               [''Order Created: '' @ oid @ '' | Restaurant: '' @ RestaurantID order @ '' | Total: ''
                @ sprintf_2f rt
                    (\<Sum>item\<leftarrow>items. \<Sum>menuItem\<leftarrow>filter (\<lambda>menuItem. ID menuItem = MenuID item) (Menu menu).
                       Price menuItem * float64_of_int rt (Quantity item))]))"
proof -
  have s: "totalAmount_of rt items menu =
     (\<Sum>item\<leftarrow>items. \<Sum>menuItem\<leftarrow>filter (\<lambda>menuItem. ID menuItem = MenuID item) (Menu menu).
        Price menuItem * float64_of_int rt (Quantity item))"
    by (simp add: totalAmount_of_def items_loop_sum)
  have d: "totalAmount_of rt (filter (\<lambda>item. MenuID item \<in> ID ` set (Menu menu)) items) menu =
       totalAmount_of rt items menu"
    by (simp add: totalAmount_of_def items_loop_drop_absent)
  have p: "code (fst (placeOrder rt (Some order) w)) = 200
        \<and> (\<exists>oid. topics (snd (placeOrder rt (Some order) w)) ''orders'' =
               topics w ''orders'' @
               [''Order Created: '' @ oid @ '' | Restaurant: '' @ RestaurantID order @ '' | Total: ''
                @ sprintf_2f rt (totalAmount_of rt items menu)])"
    if "RestaurantID order \<noteq> ''''" "Items order = Some items"
       "getMenuFromCache rt (RestaurantID order) w = (Inr menu, w1)"
       "writer_fault w ''orders'' = None"
    using placeOrder_accepts [OF that] getMenuFromCache_frame(1) [OF that(3)]
    by (simp add: JSON_def)
  show ?thesis
    using s d p items_loop_spec [of menu rt items] by (simp del: sum_list.Cons)
qed

theorem placeOrder_totalAmount_witness:
  "distinct (map ID (Menu demo_menu))
   \<and> RestaurantID (demo_order [\<lparr>MenuID = ''m1'', Quantity = 2\<rparr>, \<lparr>MenuID = ''m2'', Quantity = 1\<rparr>, \<lparr>MenuID = ''m9'', Quantity = 3\<rparr>]) \<noteq> ''''
   \<and> writer_fault demo_world ''orders'' = None
   \<and> totalAmount_of demo_runtime
        [\<lparr>MenuID = ''m1'', Quantity = 2\<rparr>, \<lparr>MenuID = ''m2'', Quantity = 1\<rparr>, \<lparr>MenuID = ''m9'', Quantity = 3\<rparr>] demo_menu = 25
   \<and> totalAmount_of demo_runtime
        [\<lparr>MenuID = ''m1'', Quantity = 2\<rparr>, \<lparr>MenuID = ''m2'', Quantity = 1\<rparr>] demo_menu = 25
   \<and> OrderPricer_Price demo_runtime
        [\<lparr>MenuID = ''m1'', Quantity = 2\<rparr>, \<lparr>MenuID = ''m2'', Quantity = 1\<rparr>, \<lparr>MenuID = ''m9'', Quantity = 3\<rparr>] demo_menu = 25
   \<and> code (fst (placeOrder demo_runtime
        (Some (demo_order [\<lparr>MenuID = ''m1'', Quantity = 2\<rparr>, \<lparr>MenuID = ''m2'', Quantity = 1\<rparr>, \<lparr>MenuID = ''m9'', Quantity = 3\<rparr>]))
        demo_world)) = 200
   \<and> (\<exists>oid. topics (snd (placeOrder demo_runtime
        (Some (demo_order [\<lparr>MenuID = ''m1'', Quantity = 2\<rparr>, \<lparr>MenuID = ''m2'', Quantity = 1\<rparr>, \<lparr>MenuID = ''m9'', Quantity = 3\<rparr>]))
        demo_world)) ''orders'' = [''Order Created: '' @ oid @ '' | Restaurant: r1 | Total: 25.00''])"
proof -
  let ?its = "[\<lparr>MenuID = ''m1'', Quantity = 2\<rparr>, \<lparr>MenuID = ''m2'', Quantity = 1\<rparr>, \<lparr>MenuID = ''m9'', Quantity = 3\<rparr>]"
  have h: "distinct (map ID (Menu demo_menu))" "RestaurantID (demo_order ?its) \<noteq> ''''"
          "Items (demo_order ?its) = Some ?its" "writer_fault demo_world ''orders'' = None"
          "RestaurantID (demo_order ?its) = ''r1''" "topics demo_world ''orders'' = []"
    by (simp_all add: demo_menu_def demo_order_def demo_world_def)
  have e: "(\<Sum>item\<leftarrow>?its. \<Sum>menuItem\<leftarrow>filter (\<lambda>menuItem. ID menuItem = MenuID item) (Menu demo_menu).
              Price menuItem * float64_of_int demo_runtime (Quantity item)) = 25"
          "filter (\<lambda>item. MenuID item \<in> ID ` set (Menu demo_menu)) ?its =
             [\<lparr>MenuID = ''m1'', Quantity = 2\<rparr>, \<lparr>MenuID = ''m2'', Quantity = 1\<rparr>]"
    by (simp_all add: demo_menu_def demo_runtime_def)
  have r: "sprintf_2f demo_runtime 25 = ''25.00''"
    by (simp add: demo_runtime_def rat_2f_def round_half_even_def decimal.simps digit_char_def)
  from placeOrder_totalAmount
         [where rt = demo_runtime and items = ?its and menu = demo_menu
            and order = "demo_order ?its" and w = demo_world
            and ?w1.0 = "demo_world\<lparr>redis_data := (\<lambda>key. None)(''r1'' \<mapsto> (demo_file, 3600)),
                 trace := [RedisGet ''r1'', ReadFile ''menu.json'', RedisSet ''r1'' demo_file 3600]\<rparr>"]
       demo_getMenuFromCache
  show ?thesis
    unfolding e r h(5) h(6) using h(1-4) by simp
qed

text \<open>
  Claim C10. Create does not look at the quantities: its response is the same whatever
  the item list holds. Each matching menu entry contributes price times quantity,
  whatever the sign of the quantity. With exact conversion of the quantity, prices
  that are not negative and quantities that are zero or negative, the order is accepted
  with status 200 and its total, published in the event, is zero or less.
\<close>

theorem placeOrder_does_not_validate_quantity:
  fixes rt :: "('f::linordered_idom) runtime"
  shows
  "fst (placeOrder rt (Some (order\<lparr>Items := Some items\<rparr>)) w) =
     fst (placeOrder rt (Some (order\<lparr>Items := Some items'\<rparr>)) w)
   \<and> totalAmount_menu_loop rt item (Menu menu) acc =
       acc + (\<Sum>menuItem\<leftarrow>filter (\<lambda>menuItem. ID menuItem = MenuID item) (Menu menu).
                Price menuItem * float64_of_int rt (Quantity item))
   \<and> (RestaurantID order \<noteq> '''' \<and> Items order = Some items
        \<and> getMenuFromCache rt (RestaurantID order) w = (Inr menu, w1)
        \<and> writer_fault w ''orders'' = None
        \<and> float64_of_int rt = of_int
        \<and> (\<forall>menuItem\<in>set (Menu menu). 0 \<le> Price menuItem)
        \<and> (\<forall>item\<in>set items. Quantity item \<le> 0) \<longrightarrow>
        code (fst (placeOrder rt (Some order) w)) = 200
        \<and> totalAmount_of rt items menu \<le> 0
        \<and> (\<exists>oid. topics (snd (placeOrder rt (Some order) w)) ''orders'' =
               topics w ''orders'' @
               [''Order Created: '' @ oid @ '' | Restaurant: '' @ RestaurantID order @ '' | Total: ''
                @ sprintf_2f rt (totalAmount_of rt items menu)]))"
proof -
  have a: "fst (placeOrder rt (Some (order\<lparr>Items := Some items\<rparr>)) w) =
           fst (placeOrder rt (Some (order\<lparr>Items := Some items'\<rparr>)) w)"
    by (simp add: placeOrder_def rand_Intn_def publishOrderEvent_def WriteMessages_def Let_def
             split: prod.splits sum.splits option.splits)
  have n: "totalAmount_of rt items menu \<le> 0"
    if c: "float64_of_int rt = of_int" and p: "\<forall>menuItem\<in>set (Menu menu). 0 \<le> Price menuItem"
       and q: "\<forall>item\<in>set items. Quantity item \<le> 0"
  proof -
    have "(\<Sum>menuItem\<leftarrow>filter (\<lambda>menuItem. ID menuItem = MenuID item) (Menu menu).
             Price menuItem * float64_of_int rt (Quantity item)) \<le> 0"
      if "item \<in> set items" for item
      using that p q c by (intro sum_list_nonpos) (auto simp: mult_nonneg_nonpos)
    then have "(\<Sum>item\<leftarrow>items. \<Sum>menuItem\<leftarrow>filter (\<lambda>menuItem. ID menuItem = MenuID item) (Menu menu).
             Price menuItem * float64_of_int rt (Quantity item)) \<le> 0"
      by (intro sum_list_nonpos) auto
    then show ?thesis
      by (simp add: totalAmount_of_def items_loop_sum)
  qed
  have p: "code (fst (placeOrder rt (Some order) w)) = 200
        \<and> (\<exists>oid. topics (snd (placeOrder rt (Some order) w)) ''orders'' =
               topics w ''orders'' @
               [''Order Created: '' @ oid @ '' | Restaurant: '' @ RestaurantID order @ '' | Total: ''
                @ sprintf_2f rt (totalAmount_of rt items menu)])"
    if "RestaurantID order \<noteq> ''''" "Items order = Some items"
       "getMenuFromCache rt (RestaurantID order) w = (Inr menu, w1)"
       "writer_fault w ''orders'' = None"
    using placeOrder_accepts [OF that] getMenuFromCache_frame(1) [OF that(3)]
    by (simp add: JSON_def)
  show ?thesis
    using a n p menu_loop_sum [of rt item "Menu menu" acc] by blast
qed

theorem placeOrder_does_not_validate_quantity_witness:
  "(RestaurantID (demo_order [\<lparr>MenuID = ''m1'', Quantity = - 2\<rparr>, \<lparr>MenuID = ''m2'', Quantity = 0\<rparr>]) \<noteq> ''''
    \<and> Items (demo_order [\<lparr>MenuID = ''m1'', Quantity = - 2\<rparr>, \<lparr>MenuID = ''m2'', Quantity = 0\<rparr>])
        = Some [\<lparr>MenuID = ''m1'', Quantity = - 2\<rparr>, \<lparr>MenuID = ''m2'', Quantity = 0\<rparr>]
    \<and> writer_fault demo_world ''orders'' = None
    \<and> float64_of_int demo_runtime = of_int
    \<and> list_all (\<lambda>menuItem. 0 \<le> Price menuItem) (Menu demo_menu)
    \<and> list_all (\<lambda>item. Quantity item \<le> 0) [\<lparr>MenuID = ''m1'', Quantity = - 2\<rparr>, \<lparr>MenuID = ''m2'', Quantity = 0\<rparr>])
   \<and> code (fst (placeOrder demo_runtime
        (Some (demo_order [\<lparr>MenuID = ''m1'', Quantity = - 2\<rparr>, \<lparr>MenuID = ''m2'', Quantity = 0\<rparr>])) demo_world)) = 200
   \<and> totalAmount_of demo_runtime [\<lparr>MenuID = ''m1'', Quantity = - 2\<rparr>, \<lparr>MenuID = ''m2'', Quantity = 0\<rparr>] demo_menu \<le> 0
   \<and> totalAmount_of demo_runtime [\<lparr>MenuID = ''m1'', Quantity = - 2\<rparr>, \<lparr>MenuID = ''m2'', Quantity = 0\<rparr>] demo_menu = - 20
   \<and> (\<exists>oid. topics (snd (placeOrder demo_runtime
        (Some (demo_order [\<lparr>MenuID = ''m1'', Quantity = - 2\<rparr>, \<lparr>MenuID = ''m2'', Quantity = 0\<rparr>])) demo_world)) ''orders'' =
          [''Order Created: '' @ oid @ '' | Restaurant: r1 | Total: -20.00''])"
proof -
  let ?its = "[\<lparr>MenuID = ''m1'', Quantity = - 2\<rparr>, \<lparr>MenuID = ''m2'', Quantity = 0\<rparr>]"
  have h: "RestaurantID (demo_order ?its) \<noteq> ''''"
          "Items (demo_order ?its) = Some ?its" "writer_fault demo_world ''orders'' = None"
          "float64_of_int demo_runtime = of_int"
          "\<forall>menuItem\<in>set (Menu demo_menu). 0 \<le> Price menuItem"
          "\<forall>item\<in>set ?its. Quantity item \<le> 0"
    by (simp_all add: demo_menu_def demo_order_def demo_world_def demo_runtime_def)
  have h': "RestaurantID (demo_order ?its) = ''r1''" "topics demo_world ''orders'' = []"
    by (simp_all add: demo_order_def demo_world_def)
  have l: "list_all (\<lambda>menuItem. 0 \<le> Price menuItem) (Menu demo_menu)"
          "list_all (\<lambda>item. Quantity item \<le> 0) ?its"
    by (simp_all add: demo_menu_def)
  have e: "totalAmount_of demo_runtime ?its demo_menu = - 20"
    by (simp add: totalAmount_of_def demo_menu_def demo_runtime_def)
  have r: "sprintf_2f demo_runtime (- 20) = ''-20.00''"
    by (simp add: demo_runtime_def rat_2f_def round_half_even_def decimal.simps digit_char_def)
  from placeOrder_does_not_validate_quantity
         [where rt = demo_runtime and items = ?its and menu = demo_menu
            and order = "demo_order ?its" and w = demo_world
            and ?w1.0 = "demo_world\<lparr>redis_data := (\<lambda>key. None)(''r1'' \<mapsto> (demo_file, 3600)),
                 trace := [RedisGet ''r1'', ReadFile ''menu.json'', RedisSet ''r1'' demo_file 3600]\<rparr>"]
       demo_getMenuFromCache h l
  show ?thesis
    unfolding e r h' by simp
qed

section \<open>Repeated reads of the cache\<close>

lemma getMenuFromCache_again:
  assumes "getMenuFromCache rt key w = (Inr m, w1)"
    and "\<exists>s. json_Marshal rt m = Inr s \<and> json_Unmarshal rt s = Inr m"
  shows "fst (getMenuFromCache rt key w1) = Inr m"
  using assms
  by (auto simp: getMenuFromCache_def fetchMenuFromFile_def redis_Get_def redis_Set_def
                 os_ReadFile_def Let_def
           split: option.splits sum.splits if_splits prod.splits)

lemma getMenuFromCache_repeat_same:
  assumes "fst (getMenuFromCache rt key w) = Inr m"
    and "\<exists>s. json_Marshal rt m = Inr s \<and> json_Unmarshal rt s = Inr m"
  shows "\<forall>r\<in>set (fst (getMenuFromCache_repeat rt key n w)). r = Inr m"
  using assms(1)
proof (induction n arbitrary: w)
  case 0
  then show ?case by simp
next
  case (Suc n)
  obtain w1 where g: "getMenuFromCache rt key w = (Inr m, w1)"
    using Suc.prems by (cases "getMenuFromCache rt key w") auto
  have "fst (getMenuFromCache rt key w1) = Inr m"
    by (rule getMenuFromCache_again [OF g assms(2)])
  from Suc.IH [OF this] g show ?case
    by (simp split: prod.splits)
qed

lemma getMenuFromCache_served_from_cache:
  assumes "getMenuFromCache rt key w = (Inr m, w1)"
    and "\<exists>s. json_Marshal rt m = Inr s \<and> json_Unmarshal rt s = Inr m"
    and "redis_data w key = None" "\<not> redis_set_fault w"
  shows "(\<exists>s. json_Marshal rt m = Inr s \<and> redis_data w1 key = Some (s, 3600))
         \<and> getMenuFromCache rt key w1 = (Inr m, emit (RedisGet key) w1)"
  using assms
  by (auto simp: getMenuFromCache_def fetchMenuFromFile_def redis_Get_def redis_Set_def
                 os_ReadFile_def Let_def time_Hour_def
           split: option.splits sum.splits if_splits prod.splits)

lemma length_getMenuFromCache_repeat: "length (fst (getMenuFromCache_repeat rt key n w)) = n"
  by (induction n arbitrary: w) (simp_all add: case_prod_beta)

text \<open>
  Claim C3. Repeated calls of \<open>getMenuFromCache\<close> for one key return the same record:
  if a call returns a menu, then every one of any number of calls made one after the
  other, starting with it, returns that menu, whether a call is served from the cache or
  reads the file and populates the cache. When the first call found no entry and its
  \<open>Set\<close> was not lost, the entry now holds the encoding of that menu with a time-to-live
  of one hour, and the next call returns the menu with no effect other than the read of
  the cache. The codec is assumed to decode the encoding of the menu to the menu; the
  file and the cache are touched by nothing else, and entries do not expire.
\<close>

theorem getMenuFromCache_idempotent:
  assumes "getMenuFromCache rt key w = (Inr m, w1)"
    and "\<exists>s. json_Marshal rt m = Inr s \<and> json_Unmarshal rt s = Inr m"
  shows "fst (getMenuFromCache_repeat rt key n w) = replicate n (Inr m)
    \<and> fst (getMenuFromCache rt key w1) = Inr m
    \<and> (redis_data w key = None \<and> \<not> redis_set_fault w \<longrightarrow>
         (\<exists>s. json_Marshal rt m = Inr s \<and> redis_data w1 key = Some (s, 3600))
         \<and> getMenuFromCache rt key w1 = (Inr m, emit (RedisGet key) w1))"
proof -
  have f: "fst (getMenuFromCache rt key w) = Inr m" using assms(1) by simp
  have "fst (getMenuFromCache_repeat rt key n w) = replicate n (Inr m)"
    using getMenuFromCache_repeat_same [OF f assms(2), of n] length_getMenuFromCache_repeat [of rt key n w]
    by (metis replicate_length_same)
  then show ?thesis
    using getMenuFromCache_again [OF assms] getMenuFromCache_served_from_cache [OF assms]
    by blast
qed

theorem getMenuFromCache_idempotent_witness:
  "getMenuFromCache demo_runtime ''r1'' demo_world =
     (Inr demo_menu,
      demo_world\<lparr>redis_data := (\<lambda>key. None)(''r1'' \<mapsto> (demo_file, 3600)),
                 trace := [RedisGet ''r1'', ReadFile ''menu.json'', RedisSet ''r1'' demo_file 3600]\<rparr>)
   \<and> (\<exists>s. json_Marshal demo_runtime demo_menu = Inr s \<and> json_Unmarshal demo_runtime s = Inr demo_menu)
   \<and> fst (getMenuFromCache_repeat demo_runtime ''r1'' 3 demo_world) = replicate 3 (Inr demo_menu)
   \<and> getMenuFromCache demo_runtime ''r1''
        (demo_world\<lparr>redis_data := (\<lambda>key. None)(''r1'' \<mapsto> (demo_file, 3600)),
                    trace := [RedisGet ''r1'', ReadFile ''menu.json'', RedisSet ''r1'' demo_file 3600]\<rparr>) =
       (Inr demo_menu,
        demo_world\<lparr>redis_data := (\<lambda>key. None)(''r1'' \<mapsto> (demo_file, 3600)),
                   trace := [RedisGet ''r1'', ReadFile ''menu.json'', RedisSet ''r1'' demo_file 3600,
                             RedisGet ''r1'']\<rparr>)"
proof -
  have r: "\<exists>s. json_Marshal demo_runtime demo_menu = Inr s \<and> json_Unmarshal demo_runtime s = Inr demo_menu"
    by (simp add: demo_runtime_def)
  have d: "redis_data demo_world ''r1'' = None" "\<not> redis_set_fault demo_world"
    by (simp_all add: demo_world_def)
  from getMenuFromCache_idempotent [OF demo_getMenuFromCache r, of 3] d r demo_getMenuFromCache
  show ?thesis
    by (simp add: emit_def)
qed

section \<open>The order of the relay's actions\<close>

lemma relay_iteration:
  assumes "reader_fault w = None" "reader_next w < length (topics w ''orders'')"
  shows "consumeOrderDeliveredEvent (Suc fuel) w =
     consumeOrderDeliveredEvent fuel
       (processOrderDeliveredEvent (topics w ''orders'' ! reader_next w)
          (CommitMessages (reader_next w)
             (emit (KafkaRead ''orders'') (w\<lparr>reader_next := Suc (reader_next w)\<rparr>))))"
  using assms by (simp add: ReadMessage_def)

lemma relay_iteration_world:
  fixes w :: world
  defines "w' \<equiv> processOrderDeliveredEvent (topics w ''orders'' ! reader_next w)
          (CommitMessages (reader_next w)
             (emit (KafkaRead ''orders'') (w\<lparr>reader_next := Suc (reader_next w)\<rparr>)))"
  shows "trace w' = trace w @
           [KafkaRead ''orders'', KafkaCommit ''orders'' (reader_next w),
            KafkaWrite ''order-delivered'' (''Notification: '' @ topics w ''orders'' ! reader_next w),
            LogOutput]"
    and "topics w' ''orders'' = topics w ''orders''"
    and "reader_next w' = Suc (reader_next w)"
    and "reader_fault w' = reader_fault w"
    and "\<not> commit_fault w \<Longrightarrow> reader_committed w' = Suc (reader_next w)"
    and "writer_fault w ''order-delivered'' = None \<Longrightarrow>
         topics w' ''order-delivered'' =
           topics w ''order-delivered'' @ [''Notification: '' @ topics w ''orders'' ! reader_next w]"
  unfolding w'_def
  by (simp_all add: processOrderDeliveredEvent_def CommitMessages_def WriteMessages_def
               split: option.splits)


lemma relay_loop_trace:
  "\<exists>k rest. k \<le> fuel
     \<and> trace (snd (consumeOrderDeliveredEvent fuel w)) =
         trace w @ concat (map (relay_effects (topics w ''orders'')) [reader_next w ..< reader_next w + k]) @ rest
     \<and> (rest = [] \<or> rest = [KafkaRead ''orders''] \<or> rest = [KafkaRead ''orders'', LogOutput])"
proof (induction fuel arbitrary: w)
  case 0
  show ?case by simp
next
  case (Suc fuel)
  show ?case
  proof (cases "reader_fault w")
    case (Some e)
    then have "trace (snd (consumeOrderDeliveredEvent (Suc fuel) w)) =
                 trace w @ [KafkaRead ''orders'', LogOutput]"
      by (simp add: ReadMessage_def)
    then show ?thesis
      by (intro exI [of _ 0] exI [of _ "[KafkaRead ''orders'', LogOutput]"]) simp
  next
    case None
    show ?thesis
    proof (cases "reader_next w < length (topics w ''orders'')")
      case False
      with None have "trace (snd (consumeOrderDeliveredEvent (Suc fuel) w)) =
                 trace w @ [KafkaRead ''orders'']"
        by (simp add: ReadMessage_def)
      then show ?thesis
        by (intro exI [of _ 0] exI [of _ "[KafkaRead ''orders'']"]) simp
    next
      case True
      define w' where "w' = processOrderDeliveredEvent (topics w ''orders'' ! reader_next w)
          (CommitMessages (reader_next w)
             (emit (KafkaRead ''orders'') (w\<lparr>reader_next := Suc (reader_next w)\<rparr>)))"
      have step: "consumeOrderDeliveredEvent (Suc fuel) w = consumeOrderDeliveredEvent fuel w'"
        unfolding w'_def by (rule relay_iteration [OF None True])
      have t: "trace w' = trace w @ relay_effects (topics w ''orders'') (reader_next w)"
        and o: "topics w' ''orders'' = topics w ''orders''"
        and n: "reader_next w' = Suc (reader_next w)"
        unfolding w'_def relay_effects_def
        by (simp_all add: relay_iteration_world(1-3))
      from Suc.IH [of w'] obtain k rest where
        k: "k \<le> fuel"
        and tr: "trace (snd (consumeOrderDeliveredEvent fuel w')) =
                   trace w' @ concat (map (relay_effects (topics w' ''orders''))
                                          [reader_next w' ..< reader_next w' + k]) @ rest"
        and rest: "rest = [] \<or> rest = [KafkaRead ''orders''] \<or> rest = [KafkaRead ''orders'', LogOutput]"
        by blast
      have "[reader_next w ..< reader_next w + Suc k] = reader_next w # [Suc (reader_next w) ..< Suc (reader_next w) + k]"
        by (simp add: upt_conv_Cons)
      then have "trace (snd (consumeOrderDeliveredEvent (Suc fuel) w)) =
          trace w @ concat (map (relay_effects (topics w ''orders''))
                                [reader_next w ..< reader_next w + Suc k]) @ rest"
        using step tr t o n by simp
      with k rest show ?thesis
        by (intro exI [of _ "Suc k"] exI [of _ rest]) simp
    qed
  qed
qed

text \<open>
  Claim C7. An iteration of the relay loop that finds a message reads it from the topic
  \<open>orders\<close>, then commits its offset, then writes the payload prefixed with
  \<open>Notification: \<close> to the topic \<open>order-delivered\<close>, in that order and with nothing
  between; the topic \<open>orders\<close> is left as it was. Over any number of iterations the
  calls made by the loop are a sequence of such read-commit-write groups, one per
  consecutive offset, followed at most by a last read that blocks or fails. The topic of
  the notifications is not the topic that is read.
\<close>

theorem relay_commits_before_publishing:
  "(reader_fault w = None \<and> reader_next w < length (topics w ''orders'') \<longrightarrow>
      (\<exists>w'. consumeOrderDeliveredEvent (Suc fuel) w = consumeOrderDeliveredEvent fuel w'
         \<and> trace w' = trace w @
             [KafkaRead ''orders'', KafkaCommit ''orders'' (reader_next w),
              KafkaWrite ''order-delivered'' (''Notification: '' @ topics w ''orders'' ! reader_next w),
              LogOutput]
         \<and> topics w' ''orders'' = topics w ''orders''
         \<and> reader_next w' = Suc (reader_next w)
         \<and> (\<not> commit_fault w \<longrightarrow> reader_committed w' = Suc (reader_next w))
         \<and> (writer_fault w ''order-delivered'' = None \<longrightarrow>
              topics w' ''order-delivered'' =
                topics w ''order-delivered'' @ [''Notification: '' @ topics w ''orders'' ! reader_next w])))
   \<and> (\<exists>k rest. k \<le> fuel
         \<and> trace (snd (consumeOrderDeliveredEvent fuel w)) =
             trace w @ concat (map (relay_effects (topics w ''orders'')) [reader_next w ..< reader_next w + k]) @ rest
         \<and> (rest = [] \<or> rest = [KafkaRead ''orders''] \<or> rest = [KafkaRead ''orders'', LogOutput]))
   \<and> kafkaNotiWriter_Topic \<noteq> reader_Topic"
proof -
  have "\<exists>w'. consumeOrderDeliveredEvent (Suc fuel) w = consumeOrderDeliveredEvent fuel w'
         \<and> trace w' = trace w @
             [KafkaRead ''orders'', KafkaCommit ''orders'' (reader_next w),
              KafkaWrite ''order-delivered'' (''Notification: '' @ topics w ''orders'' ! reader_next w),
              LogOutput]
         \<and> topics w' ''orders'' = topics w ''orders''
         \<and> reader_next w' = Suc (reader_next w)
         \<and> (\<not> commit_fault w \<longrightarrow> reader_committed w' = Suc (reader_next w))
         \<and> (writer_fault w ''order-delivered'' = None \<longrightarrow>
              topics w' ''order-delivered'' =
                topics w ''order-delivered'' @ [''Notification: '' @ topics w ''orders'' ! reader_next w])"
    if h: "reader_fault w = None" "reader_next w < length (topics w ''orders'')"
  proof -
    define w' where "w' = processOrderDeliveredEvent (topics w ''orders'' ! reader_next w)
          (CommitMessages (reader_next w)
             (emit (KafkaRead ''orders'') (w\<lparr>reader_next := Suc (reader_next w)\<rparr>)))"
    have "consumeOrderDeliveredEvent (Suc fuel) w = consumeOrderDeliveredEvent fuel w'"
      unfolding w'_def by (rule relay_iteration [OF h])
    moreover note relay_iteration_world [of w, folded w'_def]
    ultimately show ?thesis
      by (intro exI [of _ w']) simp
  qed
  then show ?thesis
    using relay_loop_trace [of fuel w] by simp
qed

theorem relay_commits_before_publishing_witness:
  "(reader_fault (demo_world\<lparr>topics := (\<lambda>topic. [])(''orders'' := [''Order o1 Delivered''])\<rparr>) = None
    \<and> reader_next (demo_world\<lparr>topics := (\<lambda>topic. [])(''orders'' := [''Order o1 Delivered''])\<rparr>)
        < length (topics (demo_world\<lparr>topics := (\<lambda>topic. [])(''orders'' := [''Order o1 Delivered''])\<rparr>) ''orders''))
   \<and> trace (snd (consumeOrderDeliveredEvent (Suc 0)
        (demo_world\<lparr>topics := (\<lambda>topic. [])(''orders'' := [''Order o1 Delivered''])\<rparr>))) =
       [KafkaRead ''orders'', KafkaCommit ''orders'' 0,
        KafkaWrite ''order-delivered'' ''Notification: Order o1 Delivered'', LogOutput]
   \<and> topics (snd (consumeOrderDeliveredEvent (Suc 0)
        (demo_world\<lparr>topics := (\<lambda>topic. [])(''orders'' := [''Order o1 Delivered''])\<rparr>))) ''order-delivered'' =
       [''Notification: Order o1 Delivered'']
   \<and> reader_committed (snd (consumeOrderDeliveredEvent (Suc 0)
        (demo_world\<lparr>topics := (\<lambda>topic. [])(''orders'' := [''Order o1 Delivered''])\<rparr>))) = Suc 0"
proof -
  let ?w = "demo_world\<lparr>topics := (\<lambda>topic. [])(''orders'' := [''Order o1 Delivered''])\<rparr>"
  have h: "reader_fault ?w = None" "reader_next ?w < length (topics ?w ''orders'')"
          "\<not> commit_fault ?w" "writer_fault ?w ''order-delivered'' = None"
    by (simp_all add: demo_world_def)
  have v: "trace ?w = []" "reader_next ?w = 0" "topics ?w ''orders'' = [''Order o1 Delivered'']"
          "topics ?w ''order-delivered'' = []"
    by (simp_all add: demo_world_def)
  from relay_commits_before_publishing [of ?w 0] h obtain w' where
    "consumeOrderDeliveredEvent (Suc 0) ?w = consumeOrderDeliveredEvent 0 w'"
    "trace w' = trace ?w @
             [KafkaRead ''orders'', KafkaCommit ''orders'' (reader_next ?w),
              KafkaWrite ''order-delivered'' (''Notification: '' @ topics ?w ''orders'' ! reader_next ?w),
              LogOutput]"
    "reader_committed w' = Suc (reader_next ?w)"
    "topics w' ''order-delivered'' =
                topics ?w ''order-delivered'' @ [''Notification: '' @ topics ?w ''orders'' ! reader_next ?w]"
    by blast
  then show ?thesis
    using h(1,2) unfolding v by simp
qed

end
